theory Spec2Isabelle
  imports Main "HOL-Library.Signed_Division"
begin

unbundle bit_operations_syntax

section \<open>The message logging of libsigrok (log.c)\<close>

text \<open>
  The file log.c keeps five file-scope variables (the loglevel, the log options, the log
  callback with its private data pointer, and the log domain buffer) and writes to stderr.
  The model passes them around as one record. A C \<open>int\<close> is an \<open>int\<close> here: the
  only arithmetic on them is comparison, bitwise masking and the summing of a handful of
  character counts. The one conversion that wraps, the cast to \<open>guint\<close>, is written
  out modulo \<open>2 ^ 32\<close>; the signed division and remainder of C truncate towards zero
  and are \<open>sdiv\<close> and \<open>smod\<close>.
\<close>

subsection \<open>C strings and the formatting done by the C library\<close>

definition NUL :: char where
  "NUL = CHR 0x00"

text \<open>The string a \<open>char *\<close> denotes: the bytes before the first NUL.\<close>

definition c_str :: "string \<Rightarrow> string" where
  "c_str bytes = takeWhile (\<lambda>c. c \<noteq> NUL) bytes"

definition digit_char :: "nat \<Rightarrow> char" where
  "digit_char d =
     (if d = 0 then CHR ''0'' else if d = 1 then CHR ''1'' else if d = 2 then CHR ''2''
      else if d = 3 then CHR ''3'' else if d = 4 then CHR ''4'' else if d = 5 then CHR ''5''
      else if d = 6 then CHR ''6'' else if d = 7 then CHR ''7'' else if d = 8 then CHR ''8''
      else CHR ''9'')"

fun dec_digits :: "nat \<Rightarrow> string" where
  "dec_digits n = (if n < 10 then [digit_char n] else dec_digits (n div 10) @ [digit_char (n mod 10)])"

declare dec_digits.simps [simp del]

definition zero_pad :: "nat \<Rightarrow> string \<Rightarrow> string" where
  "zero_pad w ds = replicate (w - length ds) (CHR ''0'') @ ds"

definition show_int :: "int \<Rightarrow> string" where
  "show_int i = (if i < 0 then CHR ''-'' # dec_digits (nat (- i)) else dec_digits (nat i))"

text \<open>
  The variadic arguments of the printf family. \<open>ArgStr\<close> is a \<open>char *\<close> argument,
  \<open>ArgInt\<close> an \<open>int\<close> and \<open>ArgUInt\<close> an \<open>unsigned int\<close>.
\<close>

datatype arg = ArgInt int | ArgUInt nat | ArgStr string

definition is_digit :: "char \<Rightarrow> bool" where
  "is_digit c = (48 \<le> (of_char c :: nat) \<and> (of_char c :: nat) \<le> 57)"

definition digit_val :: "char \<Rightarrow> nat" where
  "digit_val c = of_char c - 48"

definition parse_nat :: "string \<Rightarrow> nat" where
  "parse_nat ds = foldl (\<lambda>acc c. 10 * acc + digit_val c) 0 ds"

text \<open>
  One conversion of the printf family, for the conversions log.c itself uses: \<open>%d\<close>,
  \<open>%u\<close> and \<open>%s\<close>, the first two with an optional zero-padded minimum field width
  such as \<open>%06u\<close>. A conversion applied to an argument of another type is undefined
  behaviour in C; the model prints the argument in its own notation there.
\<close>

definition conv_arg :: "nat \<Rightarrow> char \<Rightarrow> arg \<Rightarrow> string" where
  "conv_arg w k a =
     (case a of
        ArgInt i \<Rightarrow> (if i < 0 then CHR ''-'' # zero_pad (w - 1) (dec_digits (nat (- i)))
                     else zero_pad w (dec_digits (nat i)))
      | ArgUInt n \<Rightarrow> zero_pad w (dec_digits n)
      | ArgStr s \<Rightarrow> c_str s)"

text \<open>
  The text a printf-family call produces from a format string and its arguments:
  ordinary characters are copied, \<open>%%\<close> prints a percent sign, and a conversion
  consumes one argument. A conversion with no argument left (undefined behaviour in C)
  prints nothing.
\<close>

function vformat :: "string \<Rightarrow> arg list \<Rightarrow> string" where
  "vformat [] args = []"
| "vformat (c # fs) args =
     (if c \<noteq> CHR ''%'' then c # vformat fs args
      else (case dropWhile is_digit fs of
              [] \<Rightarrow> []
            | k # rest \<Rightarrow>
                if k = CHR ''%'' then CHR ''%'' # vformat rest args
                else (case args of
                        [] \<Rightarrow> vformat rest []
                      | a # as \<Rightarrow> conv_arg (parse_nat (takeWhile is_digit fs)) k a @ vformat rest as)))"
  by pat_completeness auto
termination
proof -
  have shorter: "length rest < length fs" if "dropWhile is_digit fs = k # rest"
    for fs rest :: string and k
    using length_dropWhile_le [of is_digit fs] that by simp
  show ?thesis
    by (relation "measure (\<lambda>(fs, args). length fs)") (auto dest: shorter)
qed


subsection \<open>Calendar time\<close>

text \<open>The fields of \<open>struct tm\<close> that the two strftime calls of log.c read.\<close>

record tm =
  tm_sec :: int
  tm_min :: int
  tm_hour :: int
  tm_mday :: int
  tm_mon :: int
  tm_year :: int

definition strftime_conv :: "char \<Rightarrow> tm \<Rightarrow> string" where
  "strftime_conv d t =
     (if d = CHR ''Y'' then show_int (1900 + tm_year t)
      else if d = CHR ''m'' then conv_arg 2 (CHR ''d'') (ArgInt (tm_mon t + 1))
      else if d = CHR ''d'' then conv_arg 2 (CHR ''d'') (ArgInt (tm_mday t))
      else if d = CHR ''H'' then conv_arg 2 (CHR ''d'') (ArgInt (tm_hour t))
      else if d = CHR ''M'' then conv_arg 2 (CHR ''d'') (ArgInt (tm_min t))
      else if d = CHR ''S'' then conv_arg 2 (CHR ''d'') (ArgInt (tm_sec t))
      else [CHR ''%'', d])"

fun strftime_text :: "string \<Rightarrow> tm \<Rightarrow> string" where
  "strftime_text [] t = []"
| "strftime_text [c] t = [c]"
| "strftime_text (c # d # fs) t =
     (if c = CHR ''%'' then strftime_conv d t @ strftime_text fs t
      else c # strftime_text (d # fs) t)"

text \<open>
  \<open>strftime(buf, maxsize, format, &tm)\<close>: the text stored in \<open>buf\<close> when it fits with its
  terminating NUL, and \<open>None\<close> when it does not (the array is then indeterminate).
\<close>

definition strftime :: "nat \<Rightarrow> string \<Rightarrow> tm \<Rightarrow> string option" where
  "strftime maxsize format t =
     (let r = strftime_text format t in if length r < maxsize then Some r else None)"

subsection \<open>What log.c takes from outside\<close>

text \<open>
  The enumerators of libsigrok.h that log.c names. The header is not part of the sources at
  hand, so the functions below take the values as a parameter and the theorems hold for
  every header.
\<close>

record sr_consts =
  SR_OK :: int
  SR_ERR_ARG :: int
  SR_LOG_NONE :: int
  SR_LOG_ERR :: int
  SR_LOG_WARN :: int
  SR_LOG_INFO :: int
  SR_LOG_DBG :: int
  SR_LOG_SPEW :: int
  SR_LOG_NOOPTS :: int
  SR_LOG_DATE :: int
  SR_LOG_TIME :: int
  SR_LOG_TIME_MS :: int
  SR_LOG_TIME_US :: int
  SR_LOG_UTC :: int

text \<open>
  Modelled from the spec: libsigrok.h, which gives the enumerators their values, is missing.
  The spec orders the levels NONE < ERROR < WARN < INFO < DEBUG < SPEW by numeric value,
  calls the empty option mask zero and the options independent flags of a bitmask; this
  header numbers the levels from 0 in that order and gives each flag its own bit. It is
  used for concrete runs only.
\<close>

definition libsigrok_h :: sr_consts where
  "libsigrok_h =
     \<lparr> SR_OK = 0, SR_ERR_ARG = - 3,
       SR_LOG_NONE = 0, SR_LOG_ERR = 1, SR_LOG_WARN = 2, SR_LOG_INFO = 3,
       SR_LOG_DBG = 4, SR_LOG_SPEW = 5,
       SR_LOG_NOOPTS = 0, SR_LOG_DATE = 1, SR_LOG_TIME = 2, SR_LOG_TIME_MS = 4,
       SR_LOG_TIME_US = 8, SR_LOG_UTC = 16 \<rparr>"

text \<open>
  What one call into log.c reads from its surroundings: whether it was compiled for
  Windows (\<open>G_OS_WIN32\<close>), the wall clock (\<open>g_get_real_time\<close>, microseconds since the
  epoch), the calendar conversions of the C library in their Windows and their POSIX form
  (\<open>None\<close> when they fail, with \<open>errno\<close> and its text as they are then), the
  indeterminate contents of the two local variables \<open>dt_tm\<close> and \<open>buf\<close> of \<open>sr_logv\<close>
  for the paths that print them unset, and the value a user-supplied log callback returns.
  A user callback is a function outside log.c, named here by its address; the model keeps
  a record of every call made to it and supposes that it does not call back into log.c.
\<close>

record env =
  G_OS_WIN32 :: bool
  g_get_real_time :: int
  gmtime_s :: "int \<Rightarrow> tm option"
  localtime_s :: "int \<Rightarrow> tm option"
  gmtime_r :: "int \<Rightarrow> tm option"
  localtime_r :: "int \<Rightarrow> tm option"
  errno :: int
  strerror :: "int \<Rightarrow> string"
  dt_tm_unset :: tm
  buf_unset :: string
  user_cb_return :: "nat \<Rightarrow> nat option \<Rightarrow> int \<Rightarrow> string \<Rightarrow> arg list \<Rightarrow> int"

subsection \<open>The state of log.c\<close>

text \<open>
  A value of type \<open>sr_log_callback\<close>: the built-in \<open>sr_logv\<close> or a user function. A
  \<open>void *\<close> is an address or \<open>None\<close> for \<open>NULL\<close>; log.c never looks behind it.
\<close>

datatype sr_log_callback = sr_logv_ptr | user_cb nat

type_synonym cb_call = "nat \<times> nat option \<times> int \<times> string \<times> arg list"

text \<open>
  The five file-scope variables, followed by what the calls have done to the outside:
  the characters written to stderr and the calls made to user callbacks, each in order.
\<close>

record log_state =
  cur_loglevel :: int
  cur_logopts :: int
  sr_log_cb :: sr_log_callback
  sr_log_cb_data :: "nat option"
  sr_log_domain :: string
  stderr :: string
  cb_calls :: "cb_call list"

definition LOGDOMAIN_MAXLEN :: nat where
  "LOGDOMAIN_MAXLEN = 30"

definition LOGDOMAIN_DEFAULT :: string where
  "LOGDOMAIN_DEFAULT = ''sr: ''"

text \<open>
  The initialisers of the file-scope variables. The array \<open>sr_log_domain\<close> has
  \<open>LOGDOMAIN_MAXLEN + 1\<close> bytes, the ones after the initialiser being NUL.
\<close>

definition initial_state :: "sr_consts \<Rightarrow> log_state" where
  "initial_state K =
     \<lparr> cur_loglevel = SR_LOG_WARN K,
       cur_logopts = SR_LOG_NOOPTS K,
       sr_log_cb = sr_logv_ptr,
       sr_log_cb_data = None,
       sr_log_domain = LOGDOMAIN_DEFAULT
          @ replicate (LOGDOMAIN_MAXLEN + 1 - length LOGDOMAIN_DEFAULT) NUL,
       stderr = [],
       cb_calls = [] \<rparr>"


subsection \<open>Writing\<close>

text \<open>
  \<open>fprintf(stderr, format, ...)\<close> and \<open>vfprintf(stderr, format, args)\<close>: the text is
  appended to stderr and its length returned. log.c does not look for write errors and
  the model has none.
\<close>

definition fprintf :: "string \<Rightarrow> arg list \<Rightarrow> log_state \<Rightarrow> int \<times> log_state" where
  "fprintf format args s =
     (int (length (vformat format args)), s\<lparr>stderr := stderr s @ vformat format args\<rparr>)"

definition vfprintf :: "string \<Rightarrow> arg list \<Rightarrow> log_state \<Rightarrow> int \<times> log_state" where
  "vfprintf format args s = fprintf format args s"

text \<open>
  \<open>snprintf(buf, n, format, ...)\<close>: at most \<open>n - 1\<close> characters of the text are
  stored at the start of \<open>buf\<close>, followed by a NUL; the bytes behind stay as they were.
\<close>

definition snprintf :: "string \<Rightarrow> nat \<Rightarrow> string \<Rightarrow> arg list \<Rightarrow> string" where
  "snprintf buf n format args =
     (if n = 0 then buf
      else let out = vformat format args; k = min (length out) (n - 1)
           in take k out @ NUL # drop (Suc k) buf)"

text \<open>\<open>g_strdup(str)\<close>: a newly allocated copy of the string, handed over as a value.\<close>

definition g_strdup :: "string \<Rightarrow> string" where
  "g_strdup str = c_str str"

subsection \<open>The default log callback\<close>

text \<open>
  The body of the timestamp block of \<open>sr_logv\<close> (lines 284 to 317), entered when one
  of the date and time options is set. It takes and returns the running count \<open>ret\<close>.
  The conditional compilation on \<open>G_OS_WIN32\<close> is a test of the surroundings.
\<close>

definition log_timestamp :: "sr_consts \<Rightarrow> env \<Rightarrow> int \<Rightarrow> log_state \<Rightarrow> int \<times> log_state" where
  "log_timestamp K E ret s =
     (let dt_us = g_get_real_time E;
          dt_timet = dt_us sdiv 1000000;
          (dt_tm, ret, s) =
            (if G_OS_WIN32 E then
               (if cur_logopts s AND SR_LOG_UTC K \<noteq> 0 then
                  (case gmtime_s E dt_timet of
                     Some t \<Rightarrow> (t, ret, s)
                   | None \<Rightarrow>
                       let (n, s) = fprintf ''gmtime_s() failed. '' [] s
                       in (dt_tm_unset E, ret + n, s))
                else
                  (case localtime_s E dt_timet of
                     Some t \<Rightarrow> (t, ret, s)
                   | None \<Rightarrow>
                       let (n, s) = fprintf ''localtime_s() failed. '' [] s
                       in (dt_tm_unset E, ret + n, s)))
             else if cur_logopts s AND SR_LOG_UTC K \<noteq> 0 then
               (case gmtime_r E dt_timet of
                  Some t \<Rightarrow> (t, ret, s)
                | None \<Rightarrow>
                    let (n, s) = fprintf ''gmtime_r() failed: %d %s ''
                                   [ArgInt (errno E), ArgStr (strerror E (errno E))] s
                    in (dt_tm_unset E, ret + n, s))
             else
               (case localtime_r E dt_timet of
                  Some t \<Rightarrow> (t, ret, s)
                | None \<Rightarrow>
                    let (n, s) = fprintf ''localtime_r() failed: %d %s ''
                                   [ArgInt (errno E), ArgStr (strerror E (errno E))] s
                    in (dt_tm_unset E, ret + n, s)));
          (ret, s) =
            (if cur_logopts s AND SR_LOG_DATE K \<noteq> 0 then
               let buf = (case strftime 30 ''%Y%m%d '' dt_tm of Some b \<Rightarrow> b | None \<Rightarrow> buf_unset E);
                   (n, s) = fprintf ''%s'' [ArgStr buf] s
               in (ret + n, s)
             else (ret, s));
          (ret, s) =
            (if cur_logopts s AND (SR_LOG_TIME K OR SR_LOG_TIME_MS K OR SR_LOG_TIME_US K) \<noteq> 0 then
               let buf = (case strftime 30 ''%H%M%S'' dt_tm of Some b \<Rightarrow> b | None \<Rightarrow> buf_unset E);
                   (n, s) = fprintf ''%s'' [ArgStr buf] s;
                   ret = ret + n;
                   (n, s) =
                     (if cur_logopts s AND SR_LOG_TIME_US K \<noteq> 0 then
                        fprintf '',%06u '' [ArgUInt (nat ((dt_us smod 1000000) mod 2 ^ 32))] s
                      else if cur_logopts s AND SR_LOG_TIME_MS K \<noteq> 0 then
                        fprintf '',%03u '' [ArgUInt (nat (((dt_us sdiv 1000) smod 1000) mod 2 ^ 32))] s
                      else
                        fprintf '' '' [] s)
               in (ret + n, s)
             else (ret, s))
      in (ret, s))"

definition sr_logv ::
  "sr_consts \<Rightarrow> env \<Rightarrow> nat option \<Rightarrow> int \<Rightarrow> string \<Rightarrow> arg list \<Rightarrow> log_state \<Rightarrow> int \<times> log_state" where
  "sr_logv K E cb_data loglevel format args s =
     (if loglevel > cur_loglevel s then (SR_OK K, s)
      else
        let ret = 0;
            (ret, s) =
              (if cur_logopts s AND (SR_LOG_DATE K OR SR_LOG_TIME K OR SR_LOG_TIME_MS K
                                      OR SR_LOG_TIME_US K) \<noteq> 0
               then log_timestamp K E ret s else (ret, s));
            s = (if (case sr_log_domain s of [] \<Rightarrow> False | c # _ \<Rightarrow> c \<noteq> NUL)
                 then snd (fprintf ''%s'' [ArgStr (sr_log_domain s)] s) else s);
            (n, s) = vfprintf format args s;
            ret = ret + n;
            s = snd (fprintf [CHR 0x0A] [] s)
        in (ret, s))"

subsection \<open>The entry points\<close>

text \<open>
  The call \<open>sr_log_cb(sr_log_cb_data, loglevel, format, args)\<close> through the function
  pointer, which all six logging functions make.
\<close>

definition call_sr_log_cb ::
  "sr_consts \<Rightarrow> env \<Rightarrow> int \<Rightarrow> string \<Rightarrow> arg list \<Rightarrow> log_state \<Rightarrow> int \<times> log_state" where
  "call_sr_log_cb K E loglevel format args s =
     (case sr_log_cb s of
        sr_logv_ptr \<Rightarrow> sr_logv K E (sr_log_cb_data s) loglevel format args s
      | user_cb f \<Rightarrow>
          (user_cb_return E f (sr_log_cb_data s) loglevel format args,
           s\<lparr>cb_calls := cb_calls s @ [(f, sr_log_cb_data s, loglevel, format, args)]\<rparr>))"

definition sr_log ::
  "sr_consts \<Rightarrow> env \<Rightarrow> int \<Rightarrow> string \<Rightarrow> arg list \<Rightarrow> log_state \<Rightarrow> int \<times> log_state" where
  "sr_log K E loglevel format args s = call_sr_log_cb K E loglevel format args s"

definition sr_spew :: "sr_consts \<Rightarrow> env \<Rightarrow> string \<Rightarrow> arg list \<Rightarrow> log_state \<Rightarrow> int \<times> log_state" where
  "sr_spew K E format args s = call_sr_log_cb K E (SR_LOG_SPEW K) format args s"

definition sr_dbg :: "sr_consts \<Rightarrow> env \<Rightarrow> string \<Rightarrow> arg list \<Rightarrow> log_state \<Rightarrow> int \<times> log_state" where
  "sr_dbg K E format args s = call_sr_log_cb K E (SR_LOG_DBG K) format args s"

definition sr_info :: "sr_consts \<Rightarrow> env \<Rightarrow> string \<Rightarrow> arg list \<Rightarrow> log_state \<Rightarrow> int \<times> log_state" where
  "sr_info K E format args s = call_sr_log_cb K E (SR_LOG_INFO K) format args s"

definition sr_warn :: "sr_consts \<Rightarrow> env \<Rightarrow> string \<Rightarrow> arg list \<Rightarrow> log_state \<Rightarrow> int \<times> log_state" where
  "sr_warn K E format args s = call_sr_log_cb K E (SR_LOG_WARN K) format args s"

definition sr_err :: "sr_consts \<Rightarrow> env \<Rightarrow> string \<Rightarrow> arg list \<Rightarrow> log_state \<Rightarrow> int \<times> log_state" where
  "sr_err K E format args s = call_sr_log_cb K E (SR_LOG_ERR K) format args s"

definition sr_log_loglevel_set :: "sr_consts \<Rightarrow> env \<Rightarrow> int \<Rightarrow> log_state \<Rightarrow> int \<times> log_state" where
  "sr_log_loglevel_set K E loglevel s =
     (if loglevel < SR_LOG_NONE K \<or> loglevel > SR_LOG_SPEW K then
        let (_, s) = sr_err K E ''Invalid loglevel %d.'' [ArgInt loglevel] s
        in (SR_ERR_ARG K, s)
      else
        let s = s\<lparr>cur_loglevel := loglevel\<rparr>;
            (_, s) = sr_dbg K E ''libsigrok loglevel set to %d.'' [ArgInt loglevel] s
        in (SR_OK K, s))"

definition sr_log_loglevel_get :: "log_state \<Rightarrow> int" where
  "sr_log_loglevel_get s = cur_loglevel s"

definition sr_log_logopts_set :: "sr_consts \<Rightarrow> env \<Rightarrow> int \<Rightarrow> log_state \<Rightarrow> int \<times> log_state" where
  "sr_log_logopts_set K E logopts s =
     (if logopts < SR_LOG_NOOPTS K
         \<or> logopts > (SR_LOG_DATE K OR SR_LOG_TIME K OR SR_LOG_TIME_MS K OR SR_LOG_TIME_US K
                        OR SR_LOG_UTC K) then
        let (_, s) = sr_err K E ''Invalid log options %d.'' [ArgInt logopts] s
        in (SR_ERR_ARG K, s)
      else
        let s = s\<lparr>cur_logopts := logopts\<rparr>;
            (_, s) = sr_dbg K E ''libsigrok log options set to %d.'' [ArgInt (cur_logopts s)] s
        in (SR_OK K, s))"

definition sr_log_logopts_get :: "log_state \<Rightarrow> int" where
  "sr_log_logopts_get s = cur_logopts s"

text \<open>The argument is a \<open>const char *\<close>: \<open>None\<close> for \<open>NULL\<close>, else the bytes it points to.\<close>

definition sr_log_logdomain_set ::
  "sr_consts \<Rightarrow> env \<Rightarrow> string option \<Rightarrow> log_state \<Rightarrow> int \<times> log_state" where
  "sr_log_logdomain_set K E logdomain s =
     (case logdomain of
        None \<Rightarrow>
          let (_, s) = sr_err K E ''log: %s: logdomain was NULL'' [ArgStr ''sr_log_logdomain_set''] s
          in (SR_ERR_ARG K, s)
      | Some text \<Rightarrow>
          let s = s\<lparr>sr_log_domain := snprintf (sr_log_domain s) LOGDOMAIN_MAXLEN ''%s'' [ArgStr text]\<rparr>;
              (_, s) = sr_dbg K E (''Log domain set to '' @ [CHR 0x27] @ ''%s'' @ [CHR 0x27] @ ''.'')
                         [ArgStr (sr_log_domain s)] s
          in (SR_OK K, s))"

definition sr_log_logdomain_get :: "log_state \<Rightarrow> string" where
  "sr_log_logdomain_get s = g_strdup (sr_log_domain s)"

text \<open>The callback argument is a function pointer: \<open>None\<close> for \<open>NULL\<close>.\<close>

definition sr_log_callback_set ::
  "sr_consts \<Rightarrow> env \<Rightarrow> sr_log_callback option \<Rightarrow> nat option \<Rightarrow> log_state \<Rightarrow> int \<times> log_state" where
  "sr_log_callback_set K E cb cb_data s =
     (case cb of
        None \<Rightarrow>
          let (_, s) = sr_err K E ''log: %s: cb was NULL'' [ArgStr ''sr_log_callback_set''] s
          in (SR_ERR_ARG K, s)
      | Some f \<Rightarrow> (SR_OK K, s\<lparr>sr_log_cb := f, sr_log_cb_data := cb_data\<rparr>))"

definition sr_log_callback_set_default :: "sr_consts \<Rightarrow> log_state \<Rightarrow> int \<times> log_state" where
  "sr_log_callback_set_default K s = (SR_OK K, s\<lparr>sr_log_cb := sr_logv_ptr, sr_log_cb_data := None\<rparr>)"


subsection \<open>The line the default callback writes\<close>

text \<open>
  The pieces of a line as \<open>sr_logv\<close> prints them, as plain text: the calendar time it
  converts the clock to, the complaint it prints when the conversion fails, the date, the
  time with its fraction, and the log domain.
\<close>

definition calendar_time :: "sr_consts \<Rightarrow> env \<Rightarrow> int \<Rightarrow> tm option" where
  "calendar_time K E opts =
     (if G_OS_WIN32 E then
        (if opts AND SR_LOG_UTC K \<noteq> 0 then gmtime_s E (g_get_real_time E sdiv 1000000)
         else localtime_s E (g_get_real_time E sdiv 1000000))
      else
        (if opts AND SR_LOG_UTC K \<noteq> 0 then gmtime_r E (g_get_real_time E sdiv 1000000)
         else localtime_r E (g_get_real_time E sdiv 1000000)))"

definition dt_tm_value :: "sr_consts \<Rightarrow> env \<Rightarrow> int \<Rightarrow> tm" where
  "dt_tm_value K E opts = (case calendar_time K E opts of Some t \<Rightarrow> t | None \<Rightarrow> dt_tm_unset E)"

definition conv_failure_text :: "sr_consts \<Rightarrow> env \<Rightarrow> int \<Rightarrow> string" where
  "conv_failure_text K E opts =
     (case calendar_time K E opts of
        Some t \<Rightarrow> []
      | None \<Rightarrow>
          (if G_OS_WIN32 E then
             (if opts AND SR_LOG_UTC K \<noteq> 0 then ''gmtime_s() failed. ''
              else ''localtime_s() failed. '')
           else
             (if opts AND SR_LOG_UTC K \<noteq> 0 then ''gmtime_r() failed: ''
              else ''localtime_r() failed: '')
             @ show_int (errno E) @ '' '' @ c_str (strerror E (errno E)) @ '' ''))"

definition strftime_buf :: "env \<Rightarrow> string \<Rightarrow> tm \<Rightarrow> string" where
  "strftime_buf E format t =
     c_str (case strftime 30 format t of Some b \<Rightarrow> b | None \<Rightarrow> buf_unset E)"

definition date_text :: "sr_consts \<Rightarrow> env \<Rightarrow> int \<Rightarrow> string" where
  "date_text K E opts =
     (if opts AND SR_LOG_DATE K \<noteq> 0 then strftime_buf E ''%Y%m%d '' (dt_tm_value K E opts)
      else [])"

definition time_text :: "sr_consts \<Rightarrow> env \<Rightarrow> int \<Rightarrow> string" where
  "time_text K E opts =
     (if opts AND (SR_LOG_TIME K OR SR_LOG_TIME_MS K OR SR_LOG_TIME_US K) \<noteq> 0 then
        strftime_buf E ''%H%M%S'' (dt_tm_value K E opts)
        @ (if opts AND SR_LOG_TIME_US K \<noteq> 0 then
             '','' @ zero_pad 6 (dec_digits (nat ((g_get_real_time E smod 1000000) mod 2 ^ 32))) @ '' ''
           else if opts AND SR_LOG_TIME_MS K \<noteq> 0 then
             '','' @ zero_pad 3 (dec_digits (nat (((g_get_real_time E sdiv 1000) smod 1000) mod 2 ^ 32))) @ '' ''
           else '' '')
      else [])"

definition timestamp_text :: "sr_consts \<Rightarrow> env \<Rightarrow> int \<Rightarrow> string" where
  "timestamp_text K E opts =
     (if opts AND (SR_LOG_DATE K OR SR_LOG_TIME K OR SR_LOG_TIME_MS K OR SR_LOG_TIME_US K) \<noteq> 0
      then conv_failure_text K E opts @ date_text K E opts @ time_text K E opts
      else [])"

definition domain_text :: "log_state \<Rightarrow> string" where
  "domain_text s = c_str (sr_log_domain s)"

text \<open>The decimal digits of \<open>n\<close> in exactly \<open>k\<close> places.\<close>

fun fixed_digits :: "nat \<Rightarrow> nat \<Rightarrow> string" where
  "fixed_digits 0 n = []"
| "fixed_digits (Suc k) n = fixed_digits k (n div 10) @ [digit_char (n mod 10)]"

text \<open>
  The time segment in the words of the specification: if any of the three time options is
  set, the hour, minute and second in two digits each; then for \<open>TIME_US\<close> a comma, the
  microseconds within the second in six digits and a space; else for \<open>TIME_MS\<close> a comma,
  the milliseconds within the second in three digits and a space; else a space.
\<close>

definition spec_time_segment :: "sr_consts \<Rightarrow> int \<Rightarrow> tm \<Rightarrow> int \<Rightarrow> string" where
  "spec_time_segment K opts t now_us =
     (if opts AND SR_LOG_TIME K \<noteq> 0 \<or> opts AND SR_LOG_TIME_MS K \<noteq> 0 \<or> opts AND SR_LOG_TIME_US K \<noteq> 0
      then
        fixed_digits 2 (nat (tm_hour t)) @ fixed_digits 2 (nat (tm_min t))
        @ fixed_digits 2 (nat (tm_sec t))
        @ (if opts AND SR_LOG_TIME_US K \<noteq> 0 then
             '','' @ fixed_digits 6 (nat (now_us mod 1000000)) @ '' ''
           else if opts AND SR_LOG_TIME_MS K \<noteq> 0 then
             '','' @ fixed_digits 3 (nat (now_us div 1000 mod 1000)) @ '' ''
           else '' '')
      else [])"

subsection \<open>A concrete surrounding\<close>

text \<open>
  A POSIX system with a clock reading of 1400000000.123456 seconds after the epoch,
  conversions that answer 16:53:20 on 13 May 2014 for UTC and two hours later for local
  time, and user callbacks that return the level they are called with.
\<close>

definition sample_env :: env where
  "sample_env =
     \<lparr> G_OS_WIN32 = False,
       g_get_real_time = 1400000000123456,
       gmtime_s = (\<lambda>t. None),
       localtime_s = (\<lambda>t. None),
       gmtime_r = (\<lambda>t. Some \<lparr>tm_sec = 20, tm_min = 53, tm_hour = 16, tm_mday = 13,
                               tm_mon = 4, tm_year = 114\<rparr>),
       localtime_r = (\<lambda>t. Some \<lparr>tm_sec = 20, tm_min = 53, tm_hour = 18, tm_mday = 13,
                                  tm_mon = 4, tm_year = 114\<rparr>),
       errno = 0,
       strerror = (\<lambda>e. ''Success''),
       dt_tm_unset = \<lparr>tm_sec = 0, tm_min = 0, tm_hour = 0, tm_mday = 0, tm_mon = 0, tm_year = 0\<rparr>,
       buf_unset = [],
       user_cb_return = (\<lambda>f cb_data loglevel format args. loglevel) \<rparr>"


section \<open>Properties\<close>

subsection \<open>The text of the fixed format strings\<close>

lemma vformat_s: "vformat ''%s'' [ArgStr b] = c_str b"
  by (simp add: is_digit_def conv_arg_def)

lemma vformat_06u: "vformat '',%06u '' [ArgUInt n] = '','' @ zero_pad 6 (dec_digits n) @ '' ''"
  by (simp add: is_digit_def conv_arg_def parse_nat_def digit_val_def)

lemma vformat_03u: "vformat '',%03u '' [ArgUInt n] = '','' @ zero_pad 3 (dec_digits n) @ '' ''"
  by (simp add: is_digit_def conv_arg_def parse_nat_def digit_val_def)

lemma vformat_space: "vformat '' '' [] = '' ''"
  by simp

lemma vformat_newline: "vformat [CHR 0x0A] [] = [CHR 0x0A]"
  by simp

lemma zero_pad_0: "zero_pad 0 ds = ds"
  by (simp add: zero_pad_def)

lemma conv_arg_d: "conv_arg 0 k (ArgInt i) = show_int i"
  by (simp add: conv_arg_def show_int_def zero_pad_def)

lemma vformat_gmtime:
  "vformat ''gmtime_r() failed: %d %s '' [ArgInt e, ArgStr m]
     = ''gmtime_r() failed: '' @ show_int e @ '' '' @ c_str m @ '' ''"
  by (simp add: is_digit_def conv_arg_d parse_nat_def) (simp add: conv_arg_def)

lemma vformat_localtime:
  "vformat ''localtime_r() failed: %d %s '' [ArgInt e, ArgStr m]
     = ''localtime_r() failed: '' @ show_int e @ '' '' @ c_str m @ '' ''"
  by (simp add: is_digit_def conv_arg_d parse_nat_def) (simp add: conv_arg_def)

lemma vformat_gmtime_s: "vformat ''gmtime_s() failed. '' [] = ''gmtime_s() failed. ''"
  by simp

lemma vformat_localtime_s: "vformat ''localtime_s() failed. '' [] = ''localtime_s() failed. ''"
  by simp

declare vformat.simps [simp del]

subsection \<open>What one call of the default callback does\<close>

lemma domain_prefix:
  "(if (case b of [] \<Rightarrow> False | c # _ \<Rightarrow> c \<noteq> NUL) then c_str b else []) = c_str b"
  by (cases b) (simp_all add: c_str_def)

lemma log_timestamp_eq:
  "log_timestamp K E ret s =
     (ret + int (length (conv_failure_text K E (cur_logopts s) @ date_text K E (cur_logopts s)
                          @ time_text K E (cur_logopts s))),
      s\<lparr>stderr := stderr s @ conv_failure_text K E (cur_logopts s) @ date_text K E (cur_logopts s)
                          @ time_text K E (cur_logopts s)\<rparr>)"
  unfolding log_timestamp_def fprintf_def conv_failure_text_def date_text_def time_text_def
    dt_tm_value_def calendar_time_def strftime_buf_def vformat_s vformat_06u vformat_03u vformat_space
    vformat_gmtime vformat_localtime vformat_gmtime_s vformat_localtime_s Let_def
  by (simp split: option.splits)

lemma sr_logv_visible:
  assumes "\<not> loglevel > cur_loglevel s"
  shows "sr_logv K E cb_data loglevel format args s =
     (int (length (timestamp_text K E (cur_logopts s))) + int (length (vformat format args)),
      s\<lparr>stderr := stderr s @ timestamp_text K E (cur_logopts s) @ domain_text s
                    @ vformat format args @ [CHR 0x0A]\<rparr>)"
  using assms domain_prefix [of "sr_log_domain s"]
  unfolding sr_logv_def log_timestamp_eq timestamp_text_def domain_text_def fprintf_def vfprintf_def
    vformat_s vformat_newline Let_def
  by (simp split: if_splits)


lemmas sample_defs = libsigrok_h_def sample_env_def initial_state_def LOGDOMAIN_MAXLEN_def
  LOGDOMAIN_DEFAULT_def NUL_def c_str_def

lemma sr_logv_eq:
  "sr_logv K E cb_data loglevel format args s =
     (if loglevel > cur_loglevel s then (SR_OK K, s)
      else (int (length (timestamp_text K E (cur_logopts s))) + int (length (vformat format args)),
            s\<lparr>stderr := stderr s @ timestamp_text K E (cur_logopts s) @ domain_text s
                    @ vformat format args @ [CHR 0x0A]\<rparr>))"
proof (cases "loglevel > cur_loglevel s")
  case True
  then show ?thesis by (simp add: sr_logv_def)
next
  case False
  then show ?thesis by (simp add: sr_logv_visible)
qed

lemma call_sr_log_cb_statics:
  "cur_loglevel (snd (call_sr_log_cb K E l f a s)) = cur_loglevel s"
  "cur_logopts (snd (call_sr_log_cb K E l f a s)) = cur_logopts s"
  "sr_log_cb (snd (call_sr_log_cb K E l f a s)) = sr_log_cb s"
  "sr_log_cb_data (snd (call_sr_log_cb K E l f a s)) = sr_log_cb_data s"
  "sr_log_domain (snd (call_sr_log_cb K E l f a s)) = sr_log_domain s"
  by (simp_all add: call_sr_log_cb_def sr_logv_eq split: sr_log_callback.splits)

lemmas eval_defs = vformat.simps is_digit_def conv_arg_def parse_nat_def digit_val_def zero_pad_def
  dec_digits.simps digit_char_def show_int_def

lemma sr_err_statics:
  "cur_loglevel (snd (sr_err K E f a s)) = cur_loglevel s"
  "cur_logopts (snd (sr_err K E f a s)) = cur_logopts s"
  "sr_log_cb (snd (sr_err K E f a s)) = sr_log_cb s"
  "sr_log_cb_data (snd (sr_err K E f a s)) = sr_log_cb_data s"
  "sr_log_domain (snd (sr_err K E f a s)) = sr_log_domain s"
  by (simp_all add: sr_err_def call_sr_log_cb_statics)

lemma sr_dbg_statics:
  "cur_loglevel (snd (sr_dbg K E f a s)) = cur_loglevel s"
  "cur_logopts (snd (sr_dbg K E f a s)) = cur_logopts s"
  "sr_log_cb (snd (sr_dbg K E f a s)) = sr_log_cb s"
  "sr_log_cb_data (snd (sr_dbg K E f a s)) = sr_log_cb_data s"
  "sr_log_domain (snd (sr_dbg K E f a s)) = sr_log_domain s"
  by (simp_all add: sr_dbg_def call_sr_log_cb_statics)

subsection \<open>Decimal digits\<close>

lemma zero_pad_snoc: "zero_pad (Suc k) (ds @ [d]) = zero_pad k ds @ [d]"
  by (simp add: zero_pad_def)

lemma fixed_digits_0: "fixed_digits k 0 = replicate k (CHR ''0'')"
  by (induction k) (simp_all add: digit_char_def replicate_append_same)

lemma zero_pad_dec_digits:
  "n < 10 ^ k \<Longrightarrow> 0 < k \<Longrightarrow> zero_pad k (dec_digits n) = fixed_digits k n"
proof (induction k arbitrary: n)
  case 0
  then show ?case by simp
next
  case (Suc k)
  show ?case
  proof (cases "n < 10")
    case True
    then have "dec_digits n = [digit_char n]"
      by (simp add: dec_digits.simps)
    moreover have "zero_pad (Suc k) [digit_char n] = replicate k (CHR ''0'') @ [digit_char n]"
      by (simp add: zero_pad_def)
    ultimately show ?thesis using True by (simp add: fixed_digits_0)
  next
    case False
    then have split: "dec_digits n = dec_digits (n div 10) @ [digit_char (n mod 10)]"
      by (simp add: dec_digits.simps)
    from False Suc.prems have "0 < k"
      by (cases k) simp_all
    moreover from Suc.prems have "n div 10 < 10 ^ k"
      by (simp add: less_mult_imp_div_less mult.commute)
    ultimately have "zero_pad k (dec_digits (n div 10)) = fixed_digits k (n div 10)"
      by (rule Suc.IH [rotated])
    then show ?thesis by (simp add: split zero_pad_snoc)
  qed
qed

lemma fixed_digits_numeral:
  "fixed_digits (numeral k) n = fixed_digits (pred_numeral k) (n div 10) @ [digit_char (n mod 10)]"
  by (subst numeral_eq_Suc) simp

lemma length_fixed_digits: "length (fixed_digits k n) = k"
  by (induction k arbitrary: n) simp_all

lemma digit_char_not_NUL: "digit_char d \<noteq> NUL"
  by (simp add: digit_char_def NUL_def)

lemma c_str_fixed_digits: "c_str (fixed_digits k n) = fixed_digits k n"
proof -
  have "\<forall>c \<in> set (fixed_digits k n). c \<noteq> NUL"
    by (induction k arbitrary: n) (auto simp: digit_char_not_NUL)
  then show ?thesis by (simp add: c_str_def)
qed

lemma two_digits:
  "0 \<le> i \<Longrightarrow> i < 100 \<Longrightarrow> conv_arg 2 (CHR ''d'') (ArgInt i) = fixed_digits 2 (nat i)"
  using zero_pad_dec_digits [of "nat i" 2] by (simp add: conv_arg_def)

lemma strftime_buf_HMS:
  assumes "0 \<le> tm_hour t" "tm_hour t < 100" "0 \<le> tm_min t" "tm_min t < 100"
    "0 \<le> tm_sec t" "tm_sec t < 100"
  shows "strftime_buf E ''%H%M%S'' t
           = fixed_digits 2 (nat (tm_hour t)) @ fixed_digits 2 (nat (tm_min t))
             @ fixed_digits 2 (nat (tm_sec t))"
proof -
  have "strftime_text ''%H%M%S'' t
           = fixed_digits 2 (nat (tm_hour t)) @ fixed_digits 2 (nat (tm_min t))
             @ fixed_digits 2 (nat (tm_sec t))"
    using assms by (simp add: strftime_conv_def two_digits del: fixed_digits.simps)
  moreover have "c_str (fixed_digits 2 (nat (tm_hour t)) @ fixed_digits 2 (nat (tm_min t))
             @ fixed_digits 2 (nat (tm_sec t))) = fixed_digits 2 (nat (tm_hour t)) @ fixed_digits 2 (nat (tm_min t))
             @ fixed_digits 2 (nat (tm_sec t))"
    using c_str_fixed_digits [of 2 "nat (tm_hour t)"] c_str_fixed_digits [of 2 "nat (tm_min t)"]
      c_str_fixed_digits [of 2 "nat (tm_sec t)"]
    by (simp add: c_str_def del: fixed_digits.simps)
  ultimately show ?thesis
    by (simp add: strftime_buf_def strftime_def length_fixed_digits del: fixed_digits.simps)
qed

lemma any_flag:
  "(x AND (a OR b OR c) \<noteq> 0) = (x AND a \<noteq> 0 \<or> x AND b \<noteq> 0 \<or> x AND c \<noteq> (0::int))"
  by (simp add: bit.conj_disj_distrib or_eq_0_iff)

lemma any_flag4:
  "x AND c \<noteq> 0 \<Longrightarrow> x AND (d OR a OR b OR c) \<noteq> (0::int)"
  "x AND b \<noteq> 0 \<Longrightarrow> x AND (d OR a OR b OR c) \<noteq> (0::int)"
  "x AND a \<noteq> 0 \<Longrightarrow> x AND (d OR a OR b OR c) \<noteq> (0::int)"
  by (simp_all add: bit.conj_disj_distrib or_eq_0_iff)

lemma micro_fraction:
  assumes "0 \<le> (x::int)"
  shows "zero_pad 6 (dec_digits (nat ((x smod 1000000) mod 2 ^ 32))) = fixed_digits 6 (nat (x mod 1000000))"
proof -
  have "x smod 1000000 = x mod 1000000"
    using assms by (cases "x = 0") (simp_all add: signed_modulo_int_def sgn_if)
  moreover have "0 \<le> x mod 1000000" "x mod 1000000 < 1000000"
    by simp_all
  ultimately have "(x smod 1000000) mod 2 ^ 32 = x mod 1000000"
    by simp
  moreover have "nat (x mod 1000000) < 10 ^ 6"
    by simp
  ultimately show ?thesis
    using zero_pad_dec_digits [of "nat (x mod 1000000)" 6] by simp
qed

lemma milli_fraction:
  assumes "0 \<le> (x::int)"
  shows "zero_pad 3 (dec_digits (nat (((x sdiv 1000) smod 1000) mod 2 ^ 32)))
           = fixed_digits 3 (nat (x div 1000 mod 1000))"
proof -
  have "x sdiv 1000 = x div 1000"
    using assms by (cases "x = 0") (simp_all add: signed_divide_int_def sgn_if)
  moreover have "0 \<le> x div 1000"
    using assms by simp
  then have "(x div 1000) smod 1000 = x div 1000 mod 1000"
    by (cases "x div 1000 = 0") (simp_all add: signed_modulo_int_def sgn_if)
  moreover have "0 \<le> x div 1000 mod 1000" "x div 1000 mod 1000 < 1000"
    by simp_all
  ultimately have "((x sdiv 1000) smod 1000) mod 2 ^ 32 = x div 1000 mod 1000"
    by simp
  moreover have "nat (x div 1000 mod 1000) < 10 ^ 3"
    by simp
  ultimately show ?thesis
    using zero_pad_dec_digits [of "nat (x div 1000 mod 1000)" 3] by simp
qed

lemma time_text_spec:
  assumes "0 \<le> g_get_real_time E" and "calendar_time K E opts = Some t"
    and "0 \<le> tm_hour t" "tm_hour t < 100" "0 \<le> tm_min t" "tm_min t < 100"
    "0 \<le> tm_sec t" "tm_sec t < 100"
  shows "time_text K E opts = spec_time_segment K opts t (g_get_real_time E)"
proof -
  have micro: "zero_pad 6 (dec_digits (nat ((g_get_real_time E smod 1000000) mod 4294967296)))
                 = fixed_digits 6 (nat (g_get_real_time E mod 1000000))"
    using micro_fraction [OF assms(1)] by simp
  have milli: "zero_pad 3 (dec_digits (nat (((g_get_real_time E sdiv 1000) smod 1000) mod 4294967296)))
                 = fixed_digits 3 (nat (g_get_real_time E div 1000 mod 1000))"
    using milli_fraction [OF assms(1)] by simp
  show ?thesis
    using assms(2-)
    by (simp add: time_text_def spec_time_segment_def any_flag dt_tm_value_def strftime_buf_HMS
        micro milli del: fixed_digits.simps)
qed

subsection \<open>The level filter\<close>

text \<open>
  C1: A message of severity \<open>S\<close> handed to the default callback while the loglevel is
  \<open>T\<close> is written to stderr if and only if \<open>S \<le> T\<close>. When it is written, stderr grows
  by the line holding the formatted message; when \<open>S > T\<close> nothing at all changes and the
  callback returns \<open>SR_OK\<close>.
\<close>

theorem sr_logv_filter:
  "(stderr (snd (sr_logv K E cb_data S format args s)) \<noteq> stderr s) = (S \<le> cur_loglevel s)
   \<and> (S \<le> cur_loglevel s \<longrightarrow>
        stderr (snd (sr_logv K E cb_data S format args s))
          = stderr s @ timestamp_text K E (cur_logopts s) @ domain_text s
              @ vformat format args @ [CHR 0x0A])
   \<and> (S > cur_loglevel s \<longrightarrow> sr_logv K E cb_data S format args s = (SR_OK K, s))"
  by (simp add: sr_logv_eq)

theorem sr_logv_filter_witness:
  "SR_LOG_ERR libsigrok_h \<le> cur_loglevel (initial_state libsigrok_h)
   \<and> stderr (snd (sr_logv libsigrok_h sample_env None (SR_LOG_ERR libsigrok_h) ''failed: %d''
                    [ArgInt 42] (initial_state libsigrok_h)))
       = ''sr: failed: 42'' @ [CHR 0x0A]
   \<and> SR_LOG_INFO libsigrok_h > cur_loglevel (initial_state libsigrok_h)
   \<and> sr_logv libsigrok_h sample_env None (SR_LOG_INFO libsigrok_h) ''failed: %d''
                    [ArgInt 42] (initial_state libsigrok_h)
       = (SR_OK libsigrok_h, initial_state libsigrok_h)"
proof -
  have vis: "SR_LOG_ERR libsigrok_h \<le> cur_loglevel (initial_state libsigrok_h)"
    by (simp add: sample_defs)
  have hid: "SR_LOG_INFO libsigrok_h > cur_loglevel (initial_state libsigrok_h)"
    by (simp add: sample_defs)
  have body: "vformat ''failed: %d'' [ArgInt 42] = ''failed: 42''"
    by (simp add: vformat.simps is_digit_def conv_arg_def parse_nat_def zero_pad_def dec_digits.simps digit_char_def)
  have line: "timestamp_text libsigrok_h sample_env (cur_logopts (initial_state libsigrok_h)) = []"
    "domain_text (initial_state libsigrok_h) = ''sr: ''"
    by (simp_all add: timestamp_text_def domain_text_def sample_defs)
  have start: "stderr (initial_state libsigrok_h) = []"
    by (simp add: initial_state_def)
  from sr_logv_filter [of libsigrok_h sample_env None "SR_LOG_ERR libsigrok_h" "''failed: %d''"
        "[ArgInt 42]" "initial_state libsigrok_h"]
    sr_logv_filter [of libsigrok_h sample_env None "SR_LOG_INFO libsigrok_h" "''failed: %d''"
        "[ArgInt 42]" "initial_state libsigrok_h"]
    vis hid
  show ?thesis by (simp add: body line start)
qed


subsection \<open>The log domain\<close>

lemma c_str_no_NUL: "\<forall>c \<in> set (c_str bytes). c \<noteq> NUL"
  by (auto simp: c_str_def dest: set_takeWhileD)

lemma c_str_take_NUL: "c_str (take k (c_str bytes) @ NUL # rest) = take k (c_str bytes)"
proof -
  have "\<forall>c \<in> set (take k (c_str bytes)). c \<noteq> NUL"
    using c_str_no_NUL [of bytes] by (auto dest: in_set_takeD)
  then show ?thesis
    unfolding c_str_def [of "take k (c_str bytes) @ NUL # rest"]
    by (simp add: takeWhile_append2)
qed

lemma take_min_length: "take (min (length xs) n) xs = take n xs"
  by (cases "length xs \<le> n") (simp_all add: min_absorb1 min_absorb2)

lemma logdomain_set_get:
  "sr_log_logdomain_get (snd (sr_log_logdomain_set K E (Some text) s)) = take 29 (c_str text)"
proof -
  have "sr_log_domain (snd (sr_log_logdomain_set K E (Some text) s))
          = snprintf (sr_log_domain s) LOGDOMAIN_MAXLEN ''%s'' [ArgStr text]"
    by (simp add: sr_log_logdomain_set_def split_def sr_dbg_statics)
  also have "\<dots> = take (min (length (c_str text)) 29) (c_str text)
                 @ NUL # drop (Suc (min (length (c_str text)) 29)) (sr_log_domain s)"
    by (simp add: snprintf_def LOGDOMAIN_MAXLEN_def vformat_s Let_def)
  finally show ?thesis
    by (simp add: sr_log_logdomain_get_def g_strdup_def c_str_take_NUL take_min_length)
qed


text \<open>
  C2: a log domain of 30 characters, the longest the documentation of
  \<open>sr_log_logdomain_set\<close> allows, does not come back whole: \<open>snprintf\<close> is given
  \<open>LOGDOMAIN_MAXLEN\<close> as the size of the buffer, NUL included, and keeps 29 characters.
\<close>

theorem logdomain_of_30_chars_loses_one:
  "sr_log_logdomain_get
     (snd (sr_log_logdomain_set libsigrok_h sample_env (Some ''123456789012345678901234567890'')
            (initial_state libsigrok_h)))
     = ''12345678901234567890123456789''
   \<and> fst (sr_log_logdomain_set libsigrok_h sample_env (Some ''123456789012345678901234567890'')
            (initial_state libsigrok_h)) = SR_OK libsigrok_h"
proof -
  have "c_str ''123456789012345678901234567890'' = ''123456789012345678901234567890''"
    by (simp add: c_str_def NUL_def)
  then have "sr_log_logdomain_get
     (snd (sr_log_logdomain_set libsigrok_h sample_env (Some ''123456789012345678901234567890'')
            (initial_state libsigrok_h)))
     = ''12345678901234567890123456789''"
    by (simp add: logdomain_set_get)
  moreover have "fst (sr_log_logdomain_set libsigrok_h sample_env (Some ''123456789012345678901234567890'')
            (initial_state libsigrok_h)) = SR_OK libsigrok_h"
    by (simp add: sr_log_logdomain_set_def split_def)
  ultimately show ?thesis by simp
qed

subsection \<open>The value the default callback returns\<close>

text \<open>
  C3, as the code has it: when the message is not filtered, the default callback returns
  the number of characters of the timestamp segment plus the number of characters of the
  formatted message. The log domain and the newline are written too, but their
  characters are not part of the count.
\<close>

theorem sr_logv_return_count:
  assumes "S \<le> cur_loglevel s"
  shows "fst (sr_logv K E cb_data S format args s)
           = int (length (timestamp_text K E (cur_logopts s))) + int (length (vformat format args))
         \<and> stderr (snd (sr_logv K E cb_data S format args s))
           = stderr s @ timestamp_text K E (cur_logopts s) @ domain_text s
               @ vformat format args @ [CHR 0x0A]"
  using assms by (simp add: sr_logv_eq)


text \<open>
  In the initial state the call \<open>sr_err("failed: %d", 42)\<close> reaches the default callback,
  which writes the 15 characters of \<open>sr: failed: 42\<close> and the newline, and returns 10.
\<close>

theorem sr_logv_return_count_counterexample:
  "fst (sr_logv libsigrok_h sample_env None (SR_LOG_ERR libsigrok_h) ''failed: %d'' [ArgInt 42]
          (initial_state libsigrok_h)) = 10
   \<and> stderr (initial_state libsigrok_h) = []
   \<and> stderr (snd (sr_logv libsigrok_h sample_env None (SR_LOG_ERR libsigrok_h) ''failed: %d''
                    [ArgInt 42] (initial_state libsigrok_h))) = ''sr: failed: 42'' @ [CHR 0x0A]
   \<and> int (length (stderr (snd (sr_logv libsigrok_h sample_env None (SR_LOG_ERR libsigrok_h)
                    ''failed: %d'' [ArgInt 42] (initial_state libsigrok_h))))) = 15"
proof -
  have body: "vformat ''failed: %d'' [ArgInt 42] = ''failed: 42''"
    by (simp add: vformat.simps is_digit_def conv_arg_def parse_nat_def zero_pad_def
        dec_digits.simps digit_char_def)
  have line: "timestamp_text libsigrok_h sample_env (cur_logopts (initial_state libsigrok_h)) = []"
    "domain_text (initial_state libsigrok_h) = ''sr: ''"
    by (simp_all add: timestamp_text_def domain_text_def sample_defs)
  have start: "stderr (initial_state libsigrok_h) = []"
    "\<not> SR_LOG_ERR libsigrok_h > cur_loglevel (initial_state libsigrok_h)"
    by (simp_all add: sample_defs)
  show ?thesis
    by (simp add: sr_logv_eq body line start)
qed

theorem sr_logv_return_count_witness:
  "SR_LOG_ERR libsigrok_h \<le> cur_loglevel ((initial_state libsigrok_h)\<lparr>cur_logopts := 2\<rparr>)
   \<and> fst (sr_logv libsigrok_h sample_env None (SR_LOG_ERR libsigrok_h) ''failed: %d'' [ArgInt 42]
          ((initial_state libsigrok_h)\<lparr>cur_logopts := 2\<rparr>)) = 17
   \<and> stderr (snd (sr_logv libsigrok_h sample_env None (SR_LOG_ERR libsigrok_h) ''failed: %d''
          [ArgInt 42] ((initial_state libsigrok_h)\<lparr>cur_logopts := 2\<rparr>)))
       = ''185320 sr: failed: 42'' @ [CHR 0x0A]"
proof -
  have vis: "SR_LOG_ERR libsigrok_h \<le> cur_loglevel ((initial_state libsigrok_h)\<lparr>cur_logopts := 2\<rparr>)"
    by (simp add: sample_defs)
  have body: "vformat ''failed: %d'' [ArgInt 42] = ''failed: 42''"
    by (simp add: vformat.simps is_digit_def conv_arg_def parse_nat_def zero_pad_def
        dec_digits.simps digit_char_def)
  have line: "timestamp_text libsigrok_h sample_env 2 = ''185320 ''"
    "domain_text ((initial_state libsigrok_h)\<lparr>cur_logopts := 2\<rparr>) = ''sr: ''"
    by (simp_all add: timestamp_text_def domain_text_def sample_defs conv_failure_text_def
        date_text_def time_text_def calendar_time_def dt_tm_value_def strftime_buf_def
        strftime_def strftime_conv_def conv_arg_def zero_pad_def dec_digits.simps digit_char_def)
  have start: "stderr (initial_state libsigrok_h) = []"
    by (simp add: initial_state_def)
  from sr_logv_return_count [OF vis, of libsigrok_h sample_env None "''failed: %d''" "[ArgInt 42]"]
  show ?thesis using vis by (simp add: body line start)
qed

subsection \<open>Error messages and the loglevel\<close>

text \<open>
  C4, as the code has it: under every loglevel that \<open>sr_log_loglevel_set\<close> accepts and
  that is not below \<open>SR_LOG_ERR\<close>, a message of severity \<open>SR_LOG_ERR\<close> passes the filter
  of the default callback and is written to stderr.
\<close>

theorem error_passes_from_ERR_up:
  assumes "SR_LOG_NONE K \<le> T" and "T \<le> SR_LOG_SPEW K" and "SR_LOG_ERR K \<le> T"
    and "cur_loglevel s = T"
  shows "fst (sr_log_loglevel_set K E T s0) = SR_OK K
         \<and> stderr (snd (sr_logv K E cb_data (SR_LOG_ERR K) format args s))
             = stderr s @ timestamp_text K E (cur_logopts s) @ domain_text s
                 @ vformat format args @ [CHR 0x0A]
         \<and> stderr (snd (sr_logv K E cb_data (SR_LOG_ERR K) format args s)) \<noteq> stderr s"
  using assms by (simp add: sr_logv_eq sr_log_loglevel_set_def split_def)

text \<open>
  \<open>sr_log_loglevel_set\<close> accepts \<open>SR_LOG_NONE\<close>, and under it the default callback drops
  an error message: it returns \<open>SR_OK\<close> and leaves stderr as it was.
\<close>

theorem error_suppressed_by_NONE_counterexample:
  "sr_log_loglevel_set libsigrok_h sample_env (SR_LOG_NONE libsigrok_h) (initial_state libsigrok_h)
     = (SR_OK libsigrok_h, (initial_state libsigrok_h)\<lparr>cur_loglevel := SR_LOG_NONE libsigrok_h\<rparr>)
   \<and> sr_logv libsigrok_h sample_env None (SR_LOG_ERR libsigrok_h) ''failed: %d'' [ArgInt 42]
         ((initial_state libsigrok_h)\<lparr>cur_loglevel := SR_LOG_NONE libsigrok_h\<rparr>)
     = (SR_OK libsigrok_h, (initial_state libsigrok_h)\<lparr>cur_loglevel := SR_LOG_NONE libsigrok_h\<rparr>)"
  by (simp add: sr_log_loglevel_set_def sr_dbg_def call_sr_log_cb_def sr_logv_eq sample_defs)

theorem error_passes_from_ERR_up_witness:
  "SR_LOG_NONE libsigrok_h \<le> SR_LOG_ERR libsigrok_h
   \<and> SR_LOG_ERR libsigrok_h \<le> SR_LOG_SPEW libsigrok_h
   \<and> cur_loglevel ((initial_state libsigrok_h)\<lparr>cur_loglevel := SR_LOG_ERR libsigrok_h\<rparr>)
       = SR_LOG_ERR libsigrok_h
   \<and> fst (sr_log_loglevel_set libsigrok_h sample_env (SR_LOG_ERR libsigrok_h)
            (initial_state libsigrok_h)) = SR_OK libsigrok_h
   \<and> stderr (snd (sr_logv libsigrok_h sample_env None (SR_LOG_ERR libsigrok_h) ''failed'' []
         ((initial_state libsigrok_h)\<lparr>cur_loglevel := SR_LOG_ERR libsigrok_h\<rparr>)))
       = ''sr: failed'' @ [CHR 0x0A]"
proof -
  have h: "SR_LOG_NONE libsigrok_h \<le> SR_LOG_ERR libsigrok_h"
    "SR_LOG_ERR libsigrok_h \<le> SR_LOG_SPEW libsigrok_h"
    "SR_LOG_ERR libsigrok_h \<le> SR_LOG_ERR libsigrok_h"
    "cur_loglevel ((initial_state libsigrok_h)\<lparr>cur_loglevel := SR_LOG_ERR libsigrok_h\<rparr>)
       = SR_LOG_ERR libsigrok_h"
    by (simp_all add: libsigrok_h_def)
  have line: "timestamp_text libsigrok_h sample_env (cur_logopts (initial_state libsigrok_h)) = []"
    "domain_text ((initial_state libsigrok_h)\<lparr>cur_loglevel := SR_LOG_ERR libsigrok_h\<rparr>) = ''sr: ''"
    "stderr (initial_state libsigrok_h) = []"
    "vformat ''failed'' [] = ''failed''"
    by (simp_all add: timestamp_text_def domain_text_def sample_defs vformat.simps)
  from error_passes_from_ERR_up [OF h, of sample_env "initial_state libsigrok_h" None "''failed''" "[]"]
  show ?thesis using h by (simp add: line)
qed

subsection \<open>The setters\<close>

text \<open>
  C5: a loglevel outside the range from \<open>SR_LOG_NONE\<close> to \<open>SR_LOG_SPEW\<close> makes
  \<open>sr_log_loglevel_set\<close> return \<open>SR_ERR_ARG\<close> with the loglevel as it was, and an option
  mask below \<open>SR_LOG_NOOPTS\<close> (the empty mask, 0 in the specification) or above the union
  of the five flags makes \<open>sr_log_logopts_set\<close> return \<open>SR_ERR_ARG\<close> with the options as
  they were. In both cases the state the call leaves is the one \<open>sr_err\<close> leaves when it
  reports the rejected value.
\<close>

theorem setters_reject_out_of_range:
  "(L < SR_LOG_NONE K \<or> L > SR_LOG_SPEW K \<longrightarrow>
      fst (sr_log_loglevel_set K E L s) = SR_ERR_ARG K
      \<and> sr_log_loglevel_get (snd (sr_log_loglevel_set K E L s)) = sr_log_loglevel_get s
      \<and> snd (sr_log_loglevel_set K E L s) = snd (sr_err K E ''Invalid loglevel %d.'' [ArgInt L] s))
   \<and> (M < SR_LOG_NOOPTS K
        \<or> M > (SR_LOG_DATE K OR SR_LOG_TIME K OR SR_LOG_TIME_MS K OR SR_LOG_TIME_US K OR SR_LOG_UTC K) \<longrightarrow>
      fst (sr_log_logopts_set K E M s) = SR_ERR_ARG K
      \<and> sr_log_logopts_get (snd (sr_log_logopts_set K E M s)) = sr_log_logopts_get s
      \<and> snd (sr_log_logopts_set K E M s) = snd (sr_err K E ''Invalid log options %d.'' [ArgInt M] s))"
  by (simp add: sr_log_loglevel_set_def sr_log_logopts_set_def split_def sr_err_statics
      sr_log_loglevel_get_def sr_log_logopts_get_def)

theorem setters_reject_out_of_range_witness:
  "(7 < SR_LOG_NONE libsigrok_h \<or> 7 > SR_LOG_SPEW libsigrok_h)
   \<and> sr_log_loglevel_set libsigrok_h sample_env 7 (initial_state libsigrok_h)
       = (SR_ERR_ARG libsigrok_h,
          (initial_state libsigrok_h)\<lparr>stderr := ''sr: Invalid loglevel 7.'' @ [CHR 0x0A]\<rparr>)
   \<and> (32 < SR_LOG_NOOPTS libsigrok_h
        \<or> 32 > (SR_LOG_DATE libsigrok_h OR SR_LOG_TIME libsigrok_h OR SR_LOG_TIME_MS libsigrok_h
                  OR SR_LOG_TIME_US libsigrok_h OR SR_LOG_UTC libsigrok_h))
   \<and> sr_log_logopts_set libsigrok_h sample_env 32 (initial_state libsigrok_h)
       = (SR_ERR_ARG libsigrok_h,
          (initial_state libsigrok_h)\<lparr>stderr := ''sr: Invalid log options 32.'' @ [CHR 0x0A]\<rparr>)"
proof -
  have lvl: "7 < SR_LOG_NONE libsigrok_h \<or> 7 > SR_LOG_SPEW libsigrok_h"
    by (simp add: libsigrok_h_def)
  have opt: "32 < SR_LOG_NOOPTS libsigrok_h
        \<or> 32 > (SR_LOG_DATE libsigrok_h OR SR_LOG_TIME libsigrok_h OR SR_LOG_TIME_MS libsigrok_h
                  OR SR_LOG_TIME_US libsigrok_h OR SR_LOG_UTC libsigrok_h)"
    by (simp add: libsigrok_h_def)
  have e1: "snd (sr_err libsigrok_h sample_env ''Invalid loglevel %d.'' [ArgInt 7] (initial_state libsigrok_h))
       = (initial_state libsigrok_h)\<lparr>stderr := ''sr: Invalid loglevel 7.'' @ [CHR 0x0A]\<rparr>"
    by (simp add: sr_err_def call_sr_log_cb_def sr_logv_eq timestamp_text_def domain_text_def
        sample_defs eval_defs)
  have e2: "snd (sr_err libsigrok_h sample_env ''Invalid log options %d.'' [ArgInt 32] (initial_state libsigrok_h))
       = (initial_state libsigrok_h)\<lparr>stderr := ''sr: Invalid log options 32.'' @ [CHR 0x0A]\<rparr>"
    by (simp add: sr_err_def call_sr_log_cb_def sr_logv_eq timestamp_text_def domain_text_def
        sample_defs eval_defs)
  from setters_reject_out_of_range [of 7 libsigrok_h sample_env "initial_state libsigrok_h" 32]
    lvl opt
  have "fst (sr_log_loglevel_set libsigrok_h sample_env 7 (initial_state libsigrok_h)) = SR_ERR_ARG libsigrok_h"
    "snd (sr_log_loglevel_set libsigrok_h sample_env 7 (initial_state libsigrok_h))
       = snd (sr_err libsigrok_h sample_env ''Invalid loglevel %d.'' [ArgInt 7] (initial_state libsigrok_h))"
    "fst (sr_log_logopts_set libsigrok_h sample_env 32 (initial_state libsigrok_h)) = SR_ERR_ARG libsigrok_h"
    "snd (sr_log_logopts_set libsigrok_h sample_env 32 (initial_state libsigrok_h))
       = snd (sr_err libsigrok_h sample_env ''Invalid log options %d.'' [ArgInt 32] (initial_state libsigrok_h))"
    by blast+
  then show ?thesis using lvl opt e1 e2 by (simp add: prod_eq_iff)
qed

text \<open>
  C6: a loglevel in the range from \<open>SR_LOG_NONE\<close> to \<open>SR_LOG_SPEW\<close> makes
  \<open>sr_log_loglevel_set\<close> return \<open>SR_OK\<close>, and \<open>sr_log_loglevel_get\<close> then returns it.
  The confirmation goes through \<open>sr_dbg\<close> in the state that already holds the new
  loglevel: with the default callback it is written if and only if \<open>SR_LOG_DBG\<close> is at
  most the new loglevel, whatever the old one was.
\<close>

theorem loglevel_set_valid:
  assumes "SR_LOG_NONE K \<le> L" and "L \<le> SR_LOG_SPEW K"
  shows "fst (sr_log_loglevel_set K E L s) = SR_OK K
         \<and> sr_log_loglevel_get (snd (sr_log_loglevel_set K E L s)) = L
         \<and> snd (sr_log_loglevel_set K E L s)
             = snd (sr_dbg K E ''libsigrok loglevel set to %d.'' [ArgInt L] (s\<lparr>cur_loglevel := L\<rparr>))
         \<and> (sr_log_cb s = sr_logv_ptr \<longrightarrow>
              (stderr (snd (sr_log_loglevel_set K E L s)) \<noteq> stderr s) = (SR_LOG_DBG K \<le> L))"
  using assms
  by (simp add: sr_log_loglevel_set_def split_def sr_dbg_statics sr_log_loglevel_get_def)
     (simp add: sr_dbg_def call_sr_log_cb_def sr_logv_eq)

theorem loglevel_set_valid_witness:
  "SR_LOG_NONE libsigrok_h \<le> SR_LOG_INFO libsigrok_h
   \<and> SR_LOG_INFO libsigrok_h \<le> SR_LOG_SPEW libsigrok_h
   \<and> sr_log_cb ((initial_state libsigrok_h)\<lparr>cur_loglevel := SR_LOG_SPEW libsigrok_h\<rparr>) = sr_logv_ptr
   \<and> fst (sr_log_loglevel_set libsigrok_h sample_env (SR_LOG_INFO libsigrok_h)
            ((initial_state libsigrok_h)\<lparr>cur_loglevel := SR_LOG_SPEW libsigrok_h\<rparr>)) = SR_OK libsigrok_h
   \<and> sr_log_loglevel_get (snd (sr_log_loglevel_set libsigrok_h sample_env (SR_LOG_INFO libsigrok_h)
            ((initial_state libsigrok_h)\<lparr>cur_loglevel := SR_LOG_SPEW libsigrok_h\<rparr>))) = SR_LOG_INFO libsigrok_h
   \<and> stderr (snd (sr_log_loglevel_set libsigrok_h sample_env (SR_LOG_INFO libsigrok_h)
            ((initial_state libsigrok_h)\<lparr>cur_loglevel := SR_LOG_SPEW libsigrok_h\<rparr>))) = []"
proof -
  have h: "SR_LOG_NONE libsigrok_h \<le> SR_LOG_INFO libsigrok_h"
    "SR_LOG_INFO libsigrok_h \<le> SR_LOG_SPEW libsigrok_h"
    by (simp_all add: libsigrok_h_def)
  have cb: "sr_log_cb ((initial_state libsigrok_h)\<lparr>cur_loglevel := SR_LOG_SPEW libsigrok_h\<rparr>) = sr_logv_ptr"
    by (simp add: initial_state_def)
  have dbg: "\<not> SR_LOG_DBG libsigrok_h \<le> SR_LOG_INFO libsigrok_h"
    by (simp add: libsigrok_h_def)
  from loglevel_set_valid [OF h, of sample_env
      "(initial_state libsigrok_h)\<lparr>cur_loglevel := SR_LOG_SPEW libsigrok_h\<rparr>"] cb dbg
  have "fst (sr_log_loglevel_set libsigrok_h sample_env (SR_LOG_INFO libsigrok_h)
            ((initial_state libsigrok_h)\<lparr>cur_loglevel := SR_LOG_SPEW libsigrok_h\<rparr>)) = SR_OK libsigrok_h"
    "sr_log_loglevel_get (snd (sr_log_loglevel_set libsigrok_h sample_env (SR_LOG_INFO libsigrok_h)
            ((initial_state libsigrok_h)\<lparr>cur_loglevel := SR_LOG_SPEW libsigrok_h\<rparr>))) = SR_LOG_INFO libsigrok_h"
    "stderr (snd (sr_log_loglevel_set libsigrok_h sample_env (SR_LOG_INFO libsigrok_h)
            ((initial_state libsigrok_h)\<lparr>cur_loglevel := SR_LOG_SPEW libsigrok_h\<rparr>)))
      = stderr ((initial_state libsigrok_h)\<lparr>cur_loglevel := SR_LOG_SPEW libsigrok_h\<rparr>)"
    by blast+
  moreover have "stderr ((initial_state libsigrok_h)\<lparr>cur_loglevel := SR_LOG_SPEW libsigrok_h\<rparr>) = []"
    by (simp add: initial_state_def)
  ultimately show ?thesis using h cb by simp
qed

subsection \<open>The callback registry\<close>

text \<open>
  C7: \<open>sr_log_callback_set\<close> with a \<open>NULL\<close> callback returns \<open>SR_ERR_ARG\<close> and keeps the
  callback and its data pointer; with a callback it returns \<open>SR_OK\<close> and stores the
  callback and the data pointer, a \<open>NULL\<close> data pointer included.
\<close>

theorem callback_set:
  "fst (sr_log_callback_set K E None cb_data s) = SR_ERR_ARG K
   \<and> sr_log_cb (snd (sr_log_callback_set K E None cb_data s)) = sr_log_cb s
   \<and> sr_log_cb_data (snd (sr_log_callback_set K E None cb_data s)) = sr_log_cb_data s
   \<and> fst (sr_log_callback_set K E (Some f) cb_data s) = SR_OK K
   \<and> sr_log_cb (snd (sr_log_callback_set K E (Some f) cb_data s)) = f
   \<and> sr_log_cb_data (snd (sr_log_callback_set K E (Some f) cb_data s)) = cb_data
   \<and> fst (sr_log_callback_set K E (Some f) None s) = SR_OK K
   \<and> sr_log_cb (snd (sr_log_callback_set K E (Some f) None s)) = f
   \<and> sr_log_cb_data (snd (sr_log_callback_set K E (Some f) None s)) = None"
  by (simp add: sr_log_callback_set_def split_def sr_err_statics)

text \<open>
  C8: \<open>sr_log_callback_set_default\<close> returns \<open>SR_OK\<close> in every state, makes \<open>sr_logv\<close>
  the callback and \<open>NULL\<close> its data pointer, writes nothing to stderr and calls no
  callback.
\<close>

theorem callback_set_default:
  "fst (sr_log_callback_set_default K s) = SR_OK K
   \<and> sr_log_cb (snd (sr_log_callback_set_default K s)) = sr_logv_ptr
   \<and> sr_log_cb_data (snd (sr_log_callback_set_default K s)) = None
   \<and> stderr (snd (sr_log_callback_set_default K s)) = stderr s
   \<and> cb_calls (snd (sr_log_callback_set_default K s)) = cb_calls s"
  by (simp add: sr_log_callback_set_default_def)

subsection \<open>The time segment\<close>

text \<open>
  C9: for a message that passes the filter, with a clock that is not before the epoch and
  a calendar conversion that succeeds with an hour, minute and second of two digits, the
  line on stderr is the date segment, the time segment as the specification words it, the
  log domain, the message and a newline. The microsecond form is chosen whenever
  \<open>TIME_US\<close> is set, whether or not \<open>TIME_MS\<close> is set as well.
\<close>

theorem time_segment_rendering:
  assumes "S \<le> cur_loglevel s" and "0 \<le> g_get_real_time E"
    and "calendar_time K E (cur_logopts s) = Some t"
    and "0 \<le> tm_hour t" "tm_hour t < 100" "0 \<le> tm_min t" "tm_min t < 100"
      "0 \<le> tm_sec t" "tm_sec t < 100"
  shows "stderr (snd (sr_logv K E cb_data S format args s))
           = stderr s @ date_text K E (cur_logopts s)
               @ spec_time_segment K (cur_logopts s) t (g_get_real_time E)
               @ domain_text s @ vformat format args @ [CHR 0x0A]
         \<and> (cur_logopts s AND SR_LOG_TIME_US K \<noteq> 0 \<longrightarrow>
              spec_time_segment K (cur_logopts s) t (g_get_real_time E)
                = fixed_digits 2 (nat (tm_hour t)) @ fixed_digits 2 (nat (tm_min t))
                  @ fixed_digits 2 (nat (tm_sec t))
                  @ '','' @ fixed_digits 6 (nat (g_get_real_time E mod 1000000)) @ '' '')"
proof -
  have "timestamp_text K E (cur_logopts s)
          = date_text K E (cur_logopts s) @ time_text K E (cur_logopts s)"
    using assms(3)
    by (auto simp: timestamp_text_def conv_failure_text_def date_text_def time_text_def
        bit.conj_disj_distrib or_eq_0_iff)
  moreover have "time_text K E (cur_logopts s)
          = spec_time_segment K (cur_logopts s) t (g_get_real_time E)"
    using assms(2-) by (rule time_text_spec)
  ultimately have "stderr (snd (sr_logv K E cb_data S format args s))
           = stderr s @ date_text K E (cur_logopts s)
               @ spec_time_segment K (cur_logopts s) t (g_get_real_time E)
               @ domain_text s @ vformat format args @ [CHR 0x0A]"
    using assms(1) by (simp add: sr_logv_eq)
  then show ?thesis
    by (simp add: spec_time_segment_def del: fixed_digits.simps)
qed

theorem time_segment_rendering_witness:
  "SR_LOG_ERR libsigrok_h \<le> cur_loglevel ((initial_state libsigrok_h)\<lparr>cur_logopts := 12\<rparr>)
   \<and> 0 \<le> g_get_real_time sample_env
   \<and> calendar_time libsigrok_h sample_env (cur_logopts ((initial_state libsigrok_h)\<lparr>cur_logopts := 12\<rparr>))
       = Some \<lparr>tm_sec = 20, tm_min = 53, tm_hour = 18, tm_mday = 13, tm_mon = 4, tm_year = 114\<rparr>
   \<and> 12 AND SR_LOG_TIME_MS libsigrok_h \<noteq> 0 \<and> 12 AND SR_LOG_TIME_US libsigrok_h \<noteq> 0
   \<and> stderr (snd (sr_logv libsigrok_h sample_env None (SR_LOG_ERR libsigrok_h) ''failed'' []
                    ((initial_state libsigrok_h)\<lparr>cur_logopts := 12\<rparr>)))
       = ''185320,123456 sr: failed'' @ [CHR 0x0A]"
proof -
  let ?s = "(initial_state libsigrok_h)\<lparr>cur_logopts := 12\<rparr>"
  let ?t = "\<lparr>tm_sec = 20, tm_min = 53, tm_hour = 18, tm_mday = 13, tm_mon = 4, tm_year = 114\<rparr>"
  have vis: "SR_LOG_ERR libsigrok_h \<le> cur_loglevel ?s"
    by (simp add: sample_defs)
  have clock: "0 \<le> g_get_real_time sample_env"
    by (simp add: sample_env_def)
  have conv: "calendar_time libsigrok_h sample_env (cur_logopts ?s) = Some ?t"
    by (simp add: calendar_time_def sample_defs)
  have fields: "0 \<le> tm_hour ?t" "tm_hour ?t < 100" "0 \<le> tm_min ?t" "tm_min ?t < 100"
    "0 \<le> tm_sec ?t" "tm_sec ?t < 100"
    by simp_all
  have flags: "12 AND SR_LOG_TIME_MS libsigrok_h \<noteq> 0" "12 AND SR_LOG_TIME_US libsigrok_h \<noteq> 0"
    by (simp_all add: libsigrok_h_def)
  have line: "date_text libsigrok_h sample_env 12 = []"
    "spec_time_segment libsigrok_h 12 ?t (g_get_real_time sample_env) = ''185320,123456 ''"
    "domain_text ?s = ''sr: ''"
    "vformat ''failed'' [] = ''failed''"
    "stderr ?s = []"
    by (simp_all add: date_text_def spec_time_segment_def domain_text_def sample_defs
        fixed_digits_numeral digit_char_def vformat.simps)
  from time_segment_rendering [OF vis clock conv fields, of None "''failed''" "[]", THEN conjunct1]
  show ?thesis using vis clock conv flags by (simp add: line)
qed

subsection \<open>User callbacks\<close>

text \<open>
  C10: while a user callback is registered, each of \<open>sr_spew\<close>, \<open>sr_dbg\<close>, \<open>sr_info\<close>,
  \<open>sr_warn\<close> and \<open>sr_err\<close> calls it, with the data pointer, the severity of the function
  and the caller's format and arguments, and returns what it returns. The loglevel plays
  no part and nothing is written to stderr by log.c.
\<close>

theorem user_callback_sees_every_message:
  assumes "sr_log_cb s = user_cb f"
  shows "sr_spew K E format args s
           = (user_cb_return E f (sr_log_cb_data s) (SR_LOG_SPEW K) format args,
              s\<lparr>cb_calls := cb_calls s @ [(f, sr_log_cb_data s, SR_LOG_SPEW K, format, args)]\<rparr>)
         \<and> sr_dbg K E format args s
           = (user_cb_return E f (sr_log_cb_data s) (SR_LOG_DBG K) format args,
              s\<lparr>cb_calls := cb_calls s @ [(f, sr_log_cb_data s, SR_LOG_DBG K, format, args)]\<rparr>)
         \<and> sr_info K E format args s
           = (user_cb_return E f (sr_log_cb_data s) (SR_LOG_INFO K) format args,
              s\<lparr>cb_calls := cb_calls s @ [(f, sr_log_cb_data s, SR_LOG_INFO K, format, args)]\<rparr>)
         \<and> sr_warn K E format args s
           = (user_cb_return E f (sr_log_cb_data s) (SR_LOG_WARN K) format args,
              s\<lparr>cb_calls := cb_calls s @ [(f, sr_log_cb_data s, SR_LOG_WARN K, format, args)]\<rparr>)
         \<and> sr_err K E format args s
           = (user_cb_return E f (sr_log_cb_data s) (SR_LOG_ERR K) format args,
              s\<lparr>cb_calls := cb_calls s @ [(f, sr_log_cb_data s, SR_LOG_ERR K, format, args)]\<rparr>)"
  using assms
  by (simp add: sr_spew_def sr_dbg_def sr_info_def sr_warn_def sr_err_def call_sr_log_cb_def)

theorem user_callback_sees_every_message_witness:
  "sr_log_cb ((initial_state libsigrok_h)\<lparr>cur_loglevel := SR_LOG_NONE libsigrok_h, sr_log_cb := user_cb 1\<rparr>)
     = user_cb 1
   \<and> sr_spew libsigrok_h sample_env ''x'' []
        ((initial_state libsigrok_h)\<lparr>cur_loglevel := SR_LOG_NONE libsigrok_h, sr_log_cb := user_cb 1\<rparr>)
     = (SR_LOG_SPEW libsigrok_h,
        (initial_state libsigrok_h)\<lparr>cur_loglevel := SR_LOG_NONE libsigrok_h, sr_log_cb := user_cb 1,
           cb_calls := [(1, None, SR_LOG_SPEW libsigrok_h, ''x'', [])]\<rparr>)"
proof -
  let ?s = "(initial_state libsigrok_h)\<lparr>cur_loglevel := SR_LOG_NONE libsigrok_h, sr_log_cb := user_cb 1\<rparr>"
  have cb: "sr_log_cb ?s = user_cb 1"
    by simp
  from user_callback_sees_every_message [OF cb, of libsigrok_h sample_env "''x''" "[]"]
  have "sr_spew libsigrok_h sample_env ''x'' [] ?s
          = (user_cb_return sample_env 1 (sr_log_cb_data ?s) (SR_LOG_SPEW libsigrok_h) ''x'' [],
             ?s\<lparr>cb_calls := cb_calls ?s @ [(1, sr_log_cb_data ?s, SR_LOG_SPEW libsigrok_h, ''x'', [])]\<rparr>)"
    by blast
  then show ?thesis using cb by (simp add: sample_env_def initial_state_def)
qed

end
